theory Spec2Isabelle
  imports Main "HOL-Library.Word"
begin

section \<open>Values of the program\<close>

text \<open>
  The script works on JavaScript numbers and strings. The lengths it handles come out of
  \<^verbatim>\<open>parseInt(..., 10)\<close>, which yields an integer or \<^verbatim>\<open>NaN\<close>, so a number is
  modelled as an integer or \<open>NaN\<close>. Each relational operator is false as soon as one
  operand is \<open>NaN\<close>.
\<close>

datatype number = Num int | NaN

fun isNaN :: "number \<Rightarrow> bool" where
  "isNaN NaN = True"
| "isNaN (Num n) = False"

fun num_lt :: "number \<Rightarrow> int \<Rightarrow> bool" where
  "num_lt (Num n) k = (n < k)"
| "num_lt NaN k = False"

fun num_le :: "number \<Rightarrow> int \<Rightarrow> bool" where
  "num_le (Num n) k = (n \<le> k)"
| "num_le NaN k = False"

fun num_ge :: "number \<Rightarrow> int \<Rightarrow> bool" where
  "num_ge (Num n) k = (k \<le> n)"
| "num_ge NaN k = False"

text \<open>The loop test \<^verbatim>\<open>i < length\<close>, with the counter \<open>i\<close> a natural number.\<close>

fun counter_lt :: "nat \<Rightarrow> number \<Rightarrow> bool" where
  "counter_lt i (Num n) = (int i < n)"
| "counter_lt i NaN = False"

text \<open>
  The exceptions the generator can raise: the \<^verbatim>\<open>Error\<close> it throws itself, with its
  message, the \<^verbatim>\<open>RangeError\<close> of the typed-array constructor, and the
  \<^verbatim>\<open>QuotaExceededError\<close> of \<^verbatim>\<open>crypto.getRandomValues\<close>.
\<close>

datatype error = Error string | RangeError | QuotaExceededError

type_synonym u32 = "32 word"

section \<open>Configuration and constants\<close>

record password_length =
  MIN_v :: int
  MAX_v :: int
  DEFAULT_v :: int

record threshold =
  min_v :: int
  max_v :: int

record 'a per_strength =
  TOO_WEAK :: 'a
  WEAK :: 'a
  MEDIUM :: 'a
  STRONG :: 'a

record config =
  PASSWORD_LENGTH :: password_length
  STRENGTH_THRESHOLDS :: "threshold per_strength"
  COPIED_MESSAGE_DURATION :: int

definition CONFIG :: config where
  "CONFIG =
     \<lparr> PASSWORD_LENGTH = \<lparr> MIN_v = 0, MAX_v = 16, DEFAULT_v = 0 \<rparr>,
       STRENGTH_THRESHOLDS =
         \<lparr> TOO_WEAK = \<lparr> min_v = 1, max_v = 4 \<rparr>,
           WEAK = \<lparr> min_v = 5, max_v = 8 \<rparr>,
           MEDIUM = \<lparr> min_v = 9, max_v = 12 \<rparr>,
           STRONG = \<lparr> min_v = 13, max_v = 16 \<rparr> \<rparr>,
       COPIED_MESSAGE_DURATION = 700 \<rparr>"

text \<open>
  An object with one entry per character class: \<^verbatim>\<open>CHARACTERS\<close> holds the alphabets,
  \<^verbatim>\<open>elements.checkboxes\<close> the \<^verbatim>\<open>checked\<close> flag of each checkbox.
\<close>

record 'a per_class =
  uppercase :: 'a
  lowercase :: 'a
  numbers :: 'a
  symbols :: 'a

definition CHARACTERS :: "string per_class" where
  "CHARACTERS =
     \<lparr> uppercase = ''ABCDEFGHIJKLMNOPQRSTUVWXYZ'',
       lowercase = ''abcdefghijklmnopqrstuvwxyz'',
       numbers = ''0123456789'',
       symbols = ''!@#$%^&*()_+-=[]{}|;:,.<>?'' \<rparr>"

definition STRENGTH_LABELS :: "string per_strength" where
  "STRENGTH_LABELS =
     \<lparr> TOO_WEAK = ''too weak!'',
       WEAK = ''weak'',
       MEDIUM = ''medium'',
       STRONG = ''strong'' \<rparr>"

section \<open>generateSecurePassword\<close>

text \<open>
  \<^verbatim>\<open>new Uint32Array(length)\<close>: a negative length and a length above \<open>2\<^sup>5\<^sup>3 - 1\<close>
  (9007199254740991) raise \<^verbatim>\<open>RangeError\<close>, \<^verbatim>\<open>NaN\<close> converts to the index 0, and any
  other length gives that many zeros. An engine also raises \<^verbatim>\<open>RangeError\<close> when it cannot
  obtain the memory of a large array; every such array is refused by
  \<^verbatim>\<open>crypto.getRandomValues\<close> in any case, so the statements below name both errors for
  the lengths above its quota.
\<close>

fun new_Uint32Array :: "number \<Rightarrow> error + u32 list" where
  "new_Uint32Array NaN = Inr []"
| "new_Uint32Array (Num n) =
     (if n < 0 \<or> 9007199254740991 < n then Inl RangeError
      else Inr (replicate (nat n) 0))"

text \<open>
  \<^verbatim>\<open>crypto.getRandomValues(randomValues)\<close> raises \<^verbatim>\<open>QuotaExceededError\<close> when the array
  is longer than 65536 bytes, four bytes an element; otherwise it overwrites every
  element and keeps the length. The random source belongs to the platform; it is a
  parameter \<open>rnd\<close> that gives the value written at each position, and every statement
  about the generator is made for all such \<open>rnd\<close>.
\<close>

type_synonym random_source = "nat \<Rightarrow> u32"

definition getRandomValues :: "random_source \<Rightarrow> u32 list \<Rightarrow> error + u32 list" where
  "getRandomValues rnd arr =
     (if 65536 < 4 * length arr then Inl QuotaExceededError
      else Inr (map rnd [0..<length arr]))"

text \<open>
  Reads that may leave the range: \<^verbatim>\<open>randomValues[i]\<close> and \<^verbatim>\<open>characterPool[k]\<close> are
  \<^verbatim>\<open>undefined\<close> outside the array or string (here \<open>None\<close>), and \<^verbatim>\<open>%\<close> is \<^verbatim>\<open>NaN\<close>
  (again \<open>None\<close>) on \<^verbatim>\<open>undefined\<close> and on a zero divisor.
\<close>

definition typed_at :: "u32 list \<Rightarrow> nat \<Rightarrow> u32 option" where
  "typed_at arr i = (if i < length arr then Some (arr ! i) else None)"

definition randomIndex :: "u32 option \<Rightarrow> nat \<Rightarrow> nat option" where
  "randomIndex v poolLength =
     (case v of
        None \<Rightarrow> None
      | Some w \<Rightarrow> if poolLength = 0 then None else Some (unat w mod poolLength))"

definition char_at :: "string \<Rightarrow> nat option \<Rightarrow> char option" where
  "char_at characterPool k =
     (case k of
        None \<Rightarrow> None
      | Some j \<Rightarrow> if j < length characterPool then Some (characterPool ! j) else None)"

text \<open>
  The \<^verbatim>\<open>for\<close> loop, with the counter \<open>i\<close> and the array \<open>password\<close> built so far.
\<close>

function generateSecurePassword_loop ::
  "u32 list \<Rightarrow> string \<Rightarrow> number \<Rightarrow> nat \<Rightarrow> char option list \<Rightarrow> char option list" where
  "generateSecurePassword_loop randomValues characterPool len i password =
     (if counter_lt i len
      then generateSecurePassword_loop randomValues characterPool len (Suc i)
             (password @
                [char_at characterPool
                   (randomIndex (typed_at randomValues i) (length characterPool))])
      else password)"
  by pat_completeness auto
termination
  by (relation "measure (\<lambda>(randomValues, characterPool, len, i, password).
         case len of Num n \<Rightarrow> nat n - i | NaN \<Rightarrow> 0)")
     (auto split: number.splits)

declare generateSecurePassword_loop.simps [simp del]

text \<open>\<^verbatim>\<open>password.join("")\<close>: an \<^verbatim>\<open>undefined\<close> element contributes the empty string.\<close>

fun join_empty :: "char option list \<Rightarrow> string" where
  "join_empty [] = []"
| "join_empty (None # vs) = join_empty vs"
| "join_empty (Some c # vs) = c # join_empty vs"

text \<open>The array \<open>password\<close> when the loop ends, from the filled array of random values.\<close>

definition password_array :: "u32 list \<Rightarrow> number \<Rightarrow> string \<Rightarrow> char option list" where
  "password_array randomValues len characterPool =
     generateSecurePassword_loop randomValues characterPool len 0 []"

definition generateSecurePassword :: "random_source \<Rightarrow> number \<Rightarrow> string \<Rightarrow> error + string" where
  "generateSecurePassword rnd len characterPool =
     (if characterPool = [] then Inl (Error ''Character pool cannot be empty'')
      else case new_Uint32Array len of
             Inl e \<Rightarrow> Inl e
           | Inr arr \<Rightarrow>
               (case getRandomValues rnd arr of
                  Inl e \<Rightarrow> Inl e
                | Inr randomValues \<Rightarrow>
                    Inr (join_empty (password_array randomValues len characterPool))))"

section \<open>buildCharacterPool\<close>

text \<open>
  The pool starts empty and grows by the alphabet of each checked box, tested in the
  order uppercase, lowercase, numbers, symbols. The argument is the \<^verbatim>\<open>checked\<close> flag of
  the four checkboxes.
\<close>

definition buildCharacterPool :: "bool per_class \<Rightarrow> string" where
  "buildCharacterPool checkboxes =
     (let pool0 = [];
          pool1 = (if uppercase checkboxes then pool0 @ uppercase CHARACTERS else pool0);
          pool2 = (if lowercase checkboxes then pool1 @ lowercase CHARACTERS else pool1);
          pool3 = (if numbers checkboxes then pool2 @ numbers CHARACTERS else pool2);
          pool4 = (if symbols checkboxes then pool3 @ symbols CHARACTERS else pool3)
      in pool4)"

text \<open>\<^verbatim>\<open>resetCheckboxes\<close> unchecks every box.\<close>

definition resetCheckboxes :: "bool per_class \<Rightarrow> bool per_class" where
  "resetCheckboxes checkboxes =
     \<lparr> uppercase = False, lowercase = False, numbers = False, symbols = False \<rparr>"

section \<open>getPasswordStrength\<close>

text \<open>The result is a strength label, or \<open>None\<close> for \<^verbatim>\<open>null\<close>.\<close>

definition getPasswordStrength :: "number \<Rightarrow> string option" where
  "getPasswordStrength len =
     (if len = Num 0 then None
      else if num_ge len (min_v (TOO_WEAK (STRENGTH_THRESHOLDS CONFIG)))
            \<and> num_le len (max_v (TOO_WEAK (STRENGTH_THRESHOLDS CONFIG)))
        then Some (TOO_WEAK STRENGTH_LABELS)
      else if num_ge len (min_v (WEAK (STRENGTH_THRESHOLDS CONFIG)))
            \<and> num_le len (max_v (WEAK (STRENGTH_THRESHOLDS CONFIG)))
        then Some (WEAK STRENGTH_LABELS)
      else if num_ge len (min_v (MEDIUM (STRENGTH_THRESHOLDS CONFIG)))
            \<and> num_le len (max_v (MEDIUM (STRENGTH_THRESHOLDS CONFIG)))
        then Some (MEDIUM STRENGTH_LABELS)
      else if num_ge len (min_v (STRONG (STRENGTH_THRESHOLDS CONFIG)))
            \<and> num_le len (max_v (STRONG (STRENGTH_THRESHOLDS CONFIG)))
        then Some (STRONG STRENGTH_LABELS)
      else None)"

section \<open>generatePassword\<close>

text \<open>
  The click handler, from the parsed length and the checkboxes. What it does to the page
  is named by the branch it leaves through:
  \<^item> \<open>ResetUI\<close>: \<^verbatim>\<open>resetUI()\<close> and return;
  \<^item> \<open>SelectOptionError\<close>: the pool is empty, \<^verbatim>\<open>showError()\<close>, the current password is
    cleared;
  \<^item> \<open>PasswordShown password\<close>: the password is stored and displayed;
  \<^item> \<open>CaughtError e\<close>: the \<^verbatim>\<open>catch\<close> block, which logs \<open>e\<close> and calls \<^verbatim>\<open>showError()\<close>.
\<close>

datatype outcome = ResetUI | SelectOptionError | PasswordShown string | CaughtError error

definition generatePassword :: "random_source \<Rightarrow> number \<Rightarrow> bool per_class \<Rightarrow> outcome" where
  "generatePassword rnd len checkboxes =
     (if isNaN len \<or> num_lt len (MIN_v (PASSWORD_LENGTH CONFIG)) then ResetUI
      else if len = Num 0 then ResetUI
      else let characterPool = buildCharacterPool checkboxes in
        if characterPool = [] then SelectOptionError
        else case generateSecurePassword rnd len characterPool of
               Inr password \<Rightarrow> PasswordShown password
             | Inl e \<Rightarrow> CaughtError e)"

section \<open>The specification's vocabulary\<close>

text \<open>
  The specification speaks of a set of enabled character classes and of a rating with a
  value \<open>NONE\<close>. These definitions follow its words, to be compared with the code.
\<close>

datatype CharacterClass = Uppercase | Lowercase | Numbers | Symbols

fun alphabet :: "CharacterClass \<Rightarrow> string" where
  "alphabet Uppercase = uppercase CHARACTERS"
| "alphabet Lowercase = lowercase CHARACTERS"
| "alphabet Numbers = numbers CHARACTERS"
| "alphabet Symbols = symbols CHARACTERS"

text \<open>The checkboxes when exactly the classes of \<open>S\<close> are enabled.\<close>

definition checked_of :: "CharacterClass set \<Rightarrow> bool per_class" where
  "checked_of S =
     \<lparr> uppercase = (Uppercase \<in> S), lowercase = (Lowercase \<in> S),
       numbers = (Numbers \<in> S), symbols = (Symbols \<in> S) \<rparr>"

text \<open>Checking the box of one class, and checking the boxes of a list of classes in turn.\<close>

fun enable :: "CharacterClass \<Rightarrow> bool per_class \<Rightarrow> bool per_class" where
  "enable Uppercase cb = cb\<lparr>uppercase := True\<rparr>"
| "enable Lowercase cb = cb\<lparr>lowercase := True\<rparr>"
| "enable Numbers cb = cb\<lparr>numbers := True\<rparr>"
| "enable Symbols cb = cb\<lparr>symbols := True\<rparr>"

definition enable_all :: "CharacterClass list \<Rightarrow> bool per_class \<Rightarrow> bool per_class" where
  "enable_all cs cb = fold enable cs cb"

text \<open>
  The pool as the specification words it: the alphabets of the enabled classes, in the
  order uppercase, lowercase, numbers, symbols.
\<close>

definition spec_pool :: "CharacterClass set \<Rightarrow> string" where
  "spec_pool S = concat (map alphabet (filter (\<lambda>c. c \<in> S) [Uppercase, Lowercase, Numbers, Symbols]))"

text \<open>
  A printable symbol: a visible ASCII character that is neither a digit nor a letter.
\<close>

definition printable_symbol :: "char \<Rightarrow> bool" where
  "printable_symbol c =
     (let k = (of_char c :: nat)
      in 33 \<le> k \<and> k \<le> 126
         \<and> \<not> (48 \<le> k \<and> k \<le> 57) \<and> \<not> (65 \<le> k \<and> k \<le> 90) \<and> \<not> (97 \<le> k \<and> k \<le> 122))"

text \<open>
  The two failure conditions as the specification words them: an empty pool with a
  length above 0, and a negative or non-numeric length.
\<close>

definition spec_generation_fails :: "number \<Rightarrow> string \<Rightarrow> bool" where
  "spec_generation_fails len pool =
     ((pool = [] \<and> num_ge len 1) \<or> (num_lt len 0 \<or> isNaN len))"

text \<open>A fixed random source for concrete runs: position \<open>i\<close> holds \<open>7 i + 3\<close>.\<close>

definition sample_source :: random_source where
  "sample_source i = of_nat (7 * i + 3)"

section \<open>The loop of the generator\<close>

lemma loop_unfold:
  "generateSecurePassword_loop rv pool (Num n) i pw =
     pw @ map (\<lambda>j. char_at pool (randomIndex (typed_at rv j) (length pool))) [i..<nat n]"
proof (induction rv pool "Num n" i pw rule: generateSecurePassword_loop.induct)
  case (1 rv pool i pw)
  show ?case
  proof (cases "int i < n")
    case True
    then have "[i..<nat n] = i # [Suc i..<nat n]"
      by (simp add: upt_conv_Cons)
    with True "1" show ?thesis
      by (subst generateSecurePassword_loop.simps) simp
  next
    case False
    then show ?thesis
      by (subst generateSecurePassword_loop.simps) simp
  qed
qed

lemma loop_NaN: "generateSecurePassword_loop rv pool NaN i pw = pw"
  by (subst generateSecurePassword_loop.simps) simp

lemma random_fill:
  "length arr \<le> 16384 \<Longrightarrow> getRandomValues rnd arr = Inr (map rnd [0..<length arr])"
  by (simp add: getRandomValues_def)

lemma random_quota:
  "16384 < length arr \<Longrightarrow> getRandomValues rnd arr = Inl QuotaExceededError"
  by (simp add: getRandomValues_def)

lemma random_fill_length:
  "getRandomValues rnd arr = Inr rv \<Longrightarrow> rv = map rnd [0..<length arr] \<and> length arr \<le> 16384"
  by (auto simp: getRandomValues_def split: if_splits)

lemma typed_at_filled:
  "i < n \<Longrightarrow> typed_at (map rnd [0..<n]) i = Some (rnd i)"
  by (simp add: typed_at_def)

lemma randomIndex_in_pool:
  "pool \<noteq> [] \<Longrightarrow> randomIndex (Some w) (length pool) = Some (unat w mod length pool)"
  by (simp add: randomIndex_def)

lemma char_at_in_pool:
  "pool \<noteq> [] \<Longrightarrow> char_at pool (Some (k mod length pool)) = Some (pool ! (k mod length pool))"
  by (simp add: char_at_def)

lemma join_empty_map_Some: "join_empty (map (\<lambda>j. Some (f j)) js) = map f js"
  by (induction js) simp_all

text \<open>
  With a non-empty pool, every element pushed by the loop over a filled array is a
  character of the pool: the one at the position the random value of that round selects.
\<close>

lemma password_array_drawn:
  assumes "pool \<noteq> []"
  shows "password_array (map rnd [0..<nat n]) (Num n) pool =
           map (\<lambda>j. Some (pool ! (unat (rnd j) mod length pool))) [0..<nat n]"
proof -
  have "map (\<lambda>j. char_at pool (randomIndex (typed_at (map rnd [0..<nat n]) j) (length pool)))
          [0..<nat n]
      = map (\<lambda>j. Some (pool ! (unat (rnd j) mod length pool))) [0..<nat n]"
    using assms
    by (intro map_cong refl) (simp add: typed_at_filled randomIndex_in_pool char_at_in_pool)
  then show ?thesis
    by (simp add: password_array_def loop_unfold)
qed

text \<open>
  Within the quota, the password is the sequence of the selected characters in the order
  of the draws: character \<open>j\<close> is the pool's character at position
  \<open>rnd j mod poolLength\<close>.
\<close>

lemma generate_drawn:
  assumes "pool \<noteq> []" and "0 \<le> n" and "n \<le> 16384"
  shows "generateSecurePassword rnd (Num n) pool =
           Inr (map (\<lambda>j. pool ! (unat (rnd j) mod length pool)) [0..<nat n])"
proof -
  have fill: "getRandomValues rnd (replicate (nat n) 0) = Inr (map rnd [0..<nat n])"
    using assms(3) random_fill [of "replicate (nat n) 0" rnd] by simp
  show ?thesis
    using assms
    by (simp add: generateSecurePassword_def fill password_array_drawn join_empty_map_Some)
qed

lemma generate_empty_pool:
  "generateSecurePassword rnd len [] = Inl (Error ''Character pool cannot be empty'')"
  by (simp add: generateSecurePassword_def)

lemma generate_negative:
  "pool \<noteq> [] \<Longrightarrow> n < 0 \<Longrightarrow> generateSecurePassword rnd (Num n) pool = Inl RangeError"
  by (simp add: generateSecurePassword_def)

lemma generate_over_quota:
  assumes "pool \<noteq> []" and "16384 < n"
  shows "generateSecurePassword rnd (Num n) pool =
           (if 9007199254740991 < n then Inl RangeError else Inl QuotaExceededError)"
proof (cases "9007199254740991 < n")
  case True
  with assms(1) show ?thesis
    by (simp add: generateSecurePassword_def)
next
  case False
  with assms(2) have alloc: "new_Uint32Array (Num n) = Inr (replicate (nat n) 0)"
    by simp
  have "getRandomValues rnd (replicate (nat n) 0) = Inl QuotaExceededError"
    using assms(2) by (intro random_quota) simp
  with False assms(1) alloc show ?thesis
    by (simp add: generateSecurePassword_def)
qed

lemma generate_NaN:
  "pool \<noteq> [] \<Longrightarrow> generateSecurePassword rnd NaN pool = Inr []"
  by (simp add: generateSecurePassword_def getRandomValues_def password_array_def loop_NaN)

text \<open>The ways generateSecurePassword ends.\<close>

lemma generate_cases:
  "generateSecurePassword rnd len pool =
     (if pool = [] then Inl (Error ''Character pool cannot be empty'')
      else case len of
             NaN \<Rightarrow> Inr []
           | Num n \<Rightarrow>
               if n < 0 \<or> 9007199254740991 < n then Inl RangeError
               else if 16384 < n then Inl QuotaExceededError
               else Inr (map (\<lambda>j. pool ! (unat (rnd j) mod length pool)) [0..<nat n]))"
proof (cases len)
  case NaN
  then show ?thesis
    by (simp add: generate_empty_pool generate_NaN)
next
  case (Num n)
  consider "pool = []" | "pool \<noteq> []" "n < 0" | "pool \<noteq> []" "16384 < n"
    | "pool \<noteq> []" "0 \<le> n" "n \<le> 16384"
    by linarith
  then show ?thesis
  proof cases
    case 1
    then show ?thesis by (simp add: generate_empty_pool)
  next
    case 2
    with Num show ?thesis by (simp add: generate_negative)
  next
    case 3
    with Num show ?thesis by (simp add: generate_over_quota)
  next
    case 4
    with Num show ?thesis by (simp add: generate_drawn)
  qed
qed

lemma sample_password:
  "generateSecurePassword sample_source (Num 4) (numbers CHARACTERS) = Inr ''3074''"
  by (simp add: generate_drawn CHARACTERS_def sample_source_def upt_rec)

section \<open>Properties of generateSecurePassword\<close>

text \<open>
  The claim that every length \<open>L \<ge> 1\<close> gives a password of \<open>L\<close> characters does not
  hold: with the pool \<open>ab\<close> and length 16385 the array has 65540 bytes, the random
  source refuses it, and the generator raises.
\<close>

theorem generate_over_quota_counterexample:
  "generateSecurePassword sample_source (Num 16385) ''ab'' = Inl QuotaExceededError"
  by (simp add: generate_cases)

text \<open>
  C1, as the code has it. For every length \<open>L\<close> from 1 to 16384 (the longest array of
  32-bit values the random source fills in one call) and every non-empty pool \<open>P\<close>,
  generateSecurePassword returns a password of exactly \<open>L\<close> characters, each a member
  of \<open>P\<close>, for every outcome of the random source. For a longer length and a non-empty
  pool it raises the platform's error and returns no password.
\<close>

theorem generate_length_members:
  "(1 \<le> L \<and> L \<le> 16384 \<and> P \<noteq> [] \<longrightarrow>
      (\<exists>pw. generateSecurePassword rnd (Num L) P = Inr pw
            \<and> int (length pw) = L \<and> set pw \<subseteq> set P))
   \<and> (16384 < L \<and> P \<noteq> [] \<longrightarrow>
        generateSecurePassword rnd (Num L) P = Inl QuotaExceededError
        \<or> generateSecurePassword rnd (Num L) P = Inl RangeError)"
proof -
  have within: "\<exists>pw. generateSecurePassword rnd (Num L) P = Inr pw
            \<and> int (length pw) = L \<and> set pw \<subseteq> set P"
    if "1 \<le> L" and "L \<le> 16384" and "P \<noteq> []"
  proof -
    let ?pw = "map (\<lambda>j. P ! (unat (rnd j) mod length P)) [0..<nat L]"
    have gen: "generateSecurePassword rnd (Num L) P = Inr ?pw"
      using that by (intro generate_drawn) simp_all
    have len: "int (length ?pw) = L"
      using that(1) by simp
    have mem: "set ?pw \<subseteq> set P"
      using that(3) by auto
    from gen len mem show ?thesis by blast
  qed
  have beyond: "generateSecurePassword rnd (Num L) P = Inl QuotaExceededError
        \<or> generateSecurePassword rnd (Num L) P = Inl RangeError"
    if "16384 < L" and "P \<noteq> []"
    using that by (simp add: generate_over_quota)
  from within beyond show ?thesis by blast
qed

theorem generate_length_members_witness:
  "(1::int) \<le> 4 \<and> (4::int) \<le> 16384 \<and> numbers CHARACTERS \<noteq> []
   \<and> generateSecurePassword sample_source (Num 4) (numbers CHARACTERS) = Inr ''3074''
   \<and> int (length ''3074'') = 4 \<and> set ''3074'' \<subseteq> set (numbers CHARACTERS)
   \<and> (16384::int) < 20000 \<and> ''xyz'' \<noteq> []
   \<and> generateSecurePassword sample_source (Num 20000) ''xyz'' = Inl QuotaExceededError"
proof -
  have run: "generateSecurePassword sample_source (Num 4) (numbers CHARACTERS) = Inr ''3074''"
    by (rule sample_password)
  have refused: "generateSecurePassword sample_source (Num 20000) ''xyz'' = Inl QuotaExceededError"
    by (simp add: generate_cases)
  show ?thesis
    using generate_length_members [of 4 "numbers CHARACTERS" sample_source]
      generate_length_members [of 20000 "''xyz''" sample_source] run refused
    by (simp add: CHARACTERS_def)
qed

text \<open>
  The claim that the function is total for every length \<open>L \<ge> 0\<close> does not hold: for
  length 16385 and the pool of the ten digits the array is allocated, the random source
  refuses to fill it, and the generator raises before any lookup.
\<close>

theorem generate_not_total_counterexample:
  "new_Uint32Array (Num 16385) = Inr (replicate 16385 0)
   \<and> getRandomValues sample_source (replicate 16385 0) = Inl QuotaExceededError
   \<and> generateSecurePassword sample_source (Num 16385) (numbers CHARACTERS)
       = Inl QuotaExceededError"
  by (simp add: generate_cases getRandomValues_def CHARACTERS_def)

text \<open>
  C9, as the code has it. For every non-empty pool and every length \<open>L \<ge> 0\<close>: whenever
  the array of random values is allocated and filled, in every round of the loop the
  computed index (the random 32-bit value modulo the pool length) is defined and
  strictly below the pool length, so no element of the password array is an out-of-range
  read (\<open>None\<close>): the function never reads outside the pool. It returns a password for
  every length from 0 to 16384; for a longer length it raises the platform's error
  before the loop.
\<close>

theorem generate_index_in_bounds:
  assumes "P \<noteq> []" and "0 \<le> L"
  shows "(\<forall>arr rv i. new_Uint32Array (Num L) = Inr arr \<and> getRandomValues rnd arr = Inr rv
              \<and> counter_lt i (Num L) \<longrightarrow>
            (\<exists>k. randomIndex (typed_at rv i) (length P) = Some k \<and> k < length P))
         \<and> (\<forall>arr rv. new_Uint32Array (Num L) = Inr arr \<and> getRandomValues rnd arr = Inr rv \<longrightarrow>
              None \<notin> set (password_array rv (Num L) P))
         \<and> (L \<le> 16384 \<longrightarrow>
              (\<exists>arr rv pw. new_Uint32Array (Num L) = Inr arr \<and> getRandomValues rnd arr = Inr rv
                  \<and> generateSecurePassword rnd (Num L) P = Inr pw))
         \<and> (16384 < L \<longrightarrow>
              generateSecurePassword rnd (Num L) P = Inl QuotaExceededError
              \<or> generateSecurePassword rnd (Num L) P = Inl RangeError)"
proof -
  have filled: "rv = map rnd [0..<nat L]"
    if "new_Uint32Array (Num L) = Inr arr" and "getRandomValues rnd arr = Inr rv" for arr rv
  proof -
    from that(1) have "arr = replicate (nat L) 0"
      by (simp split: if_splits)
    with that(2) show ?thesis
      using random_fill_length [of rnd arr rv] by simp
  qed
  have idx: "\<exists>k. randomIndex (typed_at rv i) (length P) = Some k \<and> k < length P"
    if "new_Uint32Array (Num L) = Inr arr" and "getRandomValues rnd arr = Inr rv"
      and "counter_lt i (Num L)" for arr rv i
  proof -
    from that(3) have "i < nat L" by simp
    with filled [OF that(1,2)]
    have "randomIndex (typed_at rv i) (length P) = Some (unat (rnd i) mod length P)"
      using assms(1) by (simp add: typed_at_filled randomIndex_in_pool)
    moreover have "unat (rnd i) mod length P < length P"
      using assms(1) by simp
    ultimately show ?thesis by blast
  qed
  have defined: "None \<notin> set (password_array rv (Num L) P)"
    if "new_Uint32Array (Num L) = Inr arr" and "getRandomValues rnd arr = Inr rv" for arr rv
    using filled [OF that] assms(1) by (auto simp: password_array_drawn)
  have returns: "\<exists>arr rv pw. new_Uint32Array (Num L) = Inr arr
      \<and> getRandomValues rnd arr = Inr rv \<and> generateSecurePassword rnd (Num L) P = Inr pw"
    if "L \<le> 16384"
  proof -
    have "new_Uint32Array (Num L) = Inr (replicate (nat L) 0)"
      using assms(2) that by simp
    moreover have "getRandomValues rnd (replicate (nat L) 0) = Inr (map rnd [0..<nat L])"
      using that random_fill [of "replicate (nat L) 0" rnd] by simp
    moreover have "\<exists>pw. generateSecurePassword rnd (Num L) P = Inr pw"
      using assms that by (simp add: generate_drawn)
    ultimately show ?thesis by blast
  qed
  have raises: "generateSecurePassword rnd (Num L) P = Inl QuotaExceededError
      \<or> generateSecurePassword rnd (Num L) P = Inl RangeError"
    if "16384 < L"
    using that assms(1) by (simp add: generate_over_quota)
  from idx defined returns raises show ?thesis by blast
qed

theorem generate_index_in_bounds_witness:
  "numbers CHARACTERS \<noteq> [] \<and> (0::int) \<le> 4
   \<and> new_Uint32Array (Num 4) = Inr [0, 0, 0, 0]
   \<and> getRandomValues sample_source [0, 0, 0, 0] = Inr [3, 10, 17, 24]
   \<and> counter_lt 3 (Num 4)
   \<and> randomIndex (typed_at [3, 10, 17, 24] 3) (length (numbers CHARACTERS)) = Some 4
   \<and> 4 < length (numbers CHARACTERS)
   \<and> None \<notin> set (password_array [3, 10, 17, 24] (Num 4) (numbers CHARACTERS))
   \<and> (4::int) \<le> 16384
   \<and> generateSecurePassword sample_source (Num 4) (numbers CHARACTERS) = Inr ''3074''"
proof -
  have arr: "replicate 4 (0::u32) = [0, 0, 0, 0]"
    by (simp add: numeral_eq_Suc)
  have fill: "getRandomValues sample_source [0, 0, 0, 0] = Inr [3, 10, 17, 24]"
    by (simp add: getRandomValues_def sample_source_def upt_rec)
  have idx: "randomIndex (typed_at [3, 10, 17, 24] 3) (length (numbers CHARACTERS)) = Some 4"
    by (simp add: typed_at_def randomIndex_def CHARACTERS_def)
  have drawn: "map sample_source [0..<4] = [3, 10, 17, 24]"
    by (simp add: sample_source_def upt_rec)
  have defined: "None \<notin> set (password_array [3, 10, 17, 24] (Num 4) (numbers CHARACTERS))"
    using password_array_drawn [of "numbers CHARACTERS" sample_source 4]
    by (auto simp: drawn CHARACTERS_def)
  show ?thesis
    using generate_index_in_bounds [of "numbers CHARACTERS" 4 sample_source]
      fill idx defined sample_password
    by (simp add: arr CHARACTERS_def)
qed

text \<open>
  C10. generateSecurePassword raises its empty-pool error exactly when the pool is empty,
  whatever the length (also for length 0); with a non-empty pool and length 0 it raises
  nothing and returns the empty password.
\<close>

theorem empty_pool_error_iff:
  "generateSecurePassword rnd len [] = Inl (Error ''Character pool cannot be empty'')
   \<and> (P \<noteq> [] \<longrightarrow> generateSecurePassword rnd (Num 0) P = Inr [])
   \<and> (generateSecurePassword rnd len P = Inl (Error ''Character pool cannot be empty'')
        \<longleftrightarrow> P = [])"
proof -
  have zero: "generateSecurePassword rnd (Num 0) P = Inr []" if "P \<noteq> []"
    using that by (simp add: generate_cases)
  have other: "generateSecurePassword rnd len P \<noteq> Inl (Error ''Character pool cannot be empty'')"
    if "P \<noteq> []"
  proof (cases len)
    case (Num n)
    with that show ?thesis
      by (simp add: generate_cases)
  next
    case NaN
    with that show ?thesis by (simp add: generate_NaN)
  qed
  from zero other show ?thesis
    by (auto simp: generate_empty_pool)
qed

theorem empty_pool_error_iff_witness:
  "generateSecurePassword sample_source (Num 0) [] = Inl (Error ''Character pool cannot be empty'')
   \<and> ''ab'' \<noteq> []
   \<and> generateSecurePassword sample_source (Num 0) ''ab'' = Inr []
   \<and> generateSecurePassword sample_source (Num 0) ''ab''
        \<noteq> Inl (Error ''Character pool cannot be empty'')"
  using empty_pool_error_iff [of sample_source "Num 0" "''ab''"]
  by simp

text \<open>
  The claim that a length of 0 fails does not hold: with the pool \<open>a\<close> and length 0 the
  generator returns the empty password.
\<close>

theorem generate_zero_length_counterexample:
  "generateSecurePassword sample_source (Num 0) ''a'' = Inr []"
  by (simp add: generate_cases)

text \<open>
  C3, as the code has it. With an empty pool, every length above 0 fails with the
  empty-pool error instead of returning a password. With length 0 the generator fails
  only when the pool is empty, with the same error; with a non-empty pool it returns the
  empty password (the caller, generatePassword, resets the page for length 0 before it
  would call the generator).
\<close>

theorem generate_degenerate_inputs:
  "(0 < L \<longrightarrow>
      generateSecurePassword rnd (Num L) [] = Inl (Error ''Character pool cannot be empty''))
   \<and> generateSecurePassword rnd (Num 0) P =
       (if P = [] then Inl (Error ''Character pool cannot be empty'') else Inr [])"
proof -
  have empty: "generateSecurePassword rnd (Num L) [] = Inl (Error ''Character pool cannot be empty'')"
    by (rule generate_empty_pool)
  have zero: "generateSecurePassword rnd (Num 0) P =
       (if P = [] then Inl (Error ''Character pool cannot be empty'') else Inr [])"
  proof (cases "P = []")
    case True
    then show ?thesis by (simp add: generate_empty_pool)
  next
    case False
    then have "generateSecurePassword rnd (Num 0) P =
        Inr (map (\<lambda>j. P ! (unat (rnd j) mod length P)) [0..<nat 0])"
      by (intro generate_drawn) simp_all
    with False show ?thesis by simp
  qed
  from empty zero show ?thesis by simp
qed

theorem generate_degenerate_inputs_witness:
  "(0::int) < 5
   \<and> generateSecurePassword sample_source (Num 5) [] = Inl (Error ''Character pool cannot be empty'')
   \<and> generateSecurePassword sample_source (Num 0) ''abc'' = Inr []"
  using generate_degenerate_inputs [of 5 sample_source "''abc''"]
  by simp

section \<open>Properties of getPasswordStrength\<close>

lemma thresholds:
  "min_v (TOO_WEAK (STRENGTH_THRESHOLDS CONFIG)) = 1" "max_v (TOO_WEAK (STRENGTH_THRESHOLDS CONFIG)) = 4"
  "min_v (WEAK (STRENGTH_THRESHOLDS CONFIG)) = 5" "max_v (WEAK (STRENGTH_THRESHOLDS CONFIG)) = 8"
  "min_v (MEDIUM (STRENGTH_THRESHOLDS CONFIG)) = 9" "max_v (MEDIUM (STRENGTH_THRESHOLDS CONFIG)) = 12"
  "min_v (STRONG (STRENGTH_THRESHOLDS CONFIG)) = 13" "max_v (STRONG (STRENGTH_THRESHOLDS CONFIG)) = 16"
  by (simp_all add: CONFIG_def)

lemma strength_of_integer:
  "getPasswordStrength (Num n) =
     (if n = 0 then None
      else if 1 \<le> n \<and> n \<le> 4 then Some (TOO_WEAK STRENGTH_LABELS)
      else if 5 \<le> n \<and> n \<le> 8 then Some (WEAK STRENGTH_LABELS)
      else if 9 \<le> n \<and> n \<le> 12 then Some (MEDIUM STRENGTH_LABELS)
      else if 13 \<le> n \<and> n \<le> 16 then Some (STRONG STRENGTH_LABELS)
      else None)"
  by (simp add: getPasswordStrength_def thresholds)

lemma labels:
  "TOO_WEAK STRENGTH_LABELS = ''too weak!''" "WEAK STRENGTH_LABELS = ''weak''"
  "MEDIUM STRENGTH_LABELS = ''medium''" "STRONG STRENGTH_LABELS = ''strong''"
  by (simp_all add: STRENGTH_LABELS_def)

text \<open>
  C2. getPasswordStrength maps an integer length to its rating by fixed buckets: 0 to
  none (\<^verbatim>\<open>null\<close>), 1 to 4 to the label of TOO_WEAK, 5 to 8 to that of WEAK, 9 to 12 to that
  of MEDIUM and 13 to 16 to that of STRONG; so 0, 4, 8, 12 and 16 give none, TOO_WEAK,
  WEAK, MEDIUM and STRONG. The four labels are different strings.
\<close>

theorem strength_buckets:
  "(n = 0 \<longrightarrow> getPasswordStrength (Num n) = None)
   \<and> (1 \<le> n \<and> n \<le> 4 \<longrightarrow> getPasswordStrength (Num n) = Some (TOO_WEAK STRENGTH_LABELS))
   \<and> (5 \<le> n \<and> n \<le> 8 \<longrightarrow> getPasswordStrength (Num n) = Some (WEAK STRENGTH_LABELS))
   \<and> (9 \<le> n \<and> n \<le> 12 \<longrightarrow> getPasswordStrength (Num n) = Some (MEDIUM STRENGTH_LABELS))
   \<and> (13 \<le> n \<and> n \<le> 16 \<longrightarrow> getPasswordStrength (Num n) = Some (STRONG STRENGTH_LABELS))
   \<and> getPasswordStrength (Num 0) = None
   \<and> getPasswordStrength (Num 4) = Some (TOO_WEAK STRENGTH_LABELS)
   \<and> getPasswordStrength (Num 8) = Some (WEAK STRENGTH_LABELS)
   \<and> getPasswordStrength (Num 12) = Some (MEDIUM STRENGTH_LABELS)
   \<and> getPasswordStrength (Num 16) = Some (STRONG STRENGTH_LABELS)
   \<and> distinct [TOO_WEAK STRENGTH_LABELS, WEAK STRENGTH_LABELS, MEDIUM STRENGTH_LABELS,
                STRONG STRENGTH_LABELS]"
proof -
  have none: "getPasswordStrength (Num 0) = None"
    by (simp add: strength_of_integer)
  have too_weak: "getPasswordStrength (Num n) = Some (TOO_WEAK STRENGTH_LABELS)"
    if "1 \<le> n \<and> n \<le> 4"
    using that by (simp add: strength_of_integer)
  have weak: "getPasswordStrength (Num n) = Some (WEAK STRENGTH_LABELS)"
    if "5 \<le> n \<and> n \<le> 8"
    using that by (simp add: strength_of_integer)
  have medium: "getPasswordStrength (Num n) = Some (MEDIUM STRENGTH_LABELS)"
    if "9 \<le> n \<and> n \<le> 12"
    using that by (simp add: strength_of_integer)
  have strong: "getPasswordStrength (Num n) = Some (STRONG STRENGTH_LABELS)"
    if "13 \<le> n \<and> n \<le> 16"
    using that by (simp add: strength_of_integer)
  have ends: "getPasswordStrength (Num 4) = Some (TOO_WEAK STRENGTH_LABELS)"
    "getPasswordStrength (Num 8) = Some (WEAK STRENGTH_LABELS)"
    "getPasswordStrength (Num 12) = Some (MEDIUM STRENGTH_LABELS)"
    "getPasswordStrength (Num 16) = Some (STRONG STRENGTH_LABELS)"
    by (simp_all add: strength_of_integer)
  have different: "distinct [TOO_WEAK STRENGTH_LABELS, WEAK STRENGTH_LABELS,
      MEDIUM STRENGTH_LABELS, STRONG STRENGTH_LABELS]"
    by (simp add: labels)
  from none too_weak weak medium strong ends different show ?thesis
    by simp
qed

theorem strength_buckets_witness:
  "(1::int) \<le> 3 \<and> (3::int) \<le> 4 \<and> getPasswordStrength (Num 3) = Some ''too weak!''
   \<and> (5::int) \<le> 7 \<and> (7::int) \<le> 8 \<and> getPasswordStrength (Num 7) = Some ''weak''
   \<and> (9::int) \<le> 10 \<and> (10::int) \<le> 12 \<and> getPasswordStrength (Num 10) = Some ''medium''
   \<and> (13::int) \<le> 14 \<and> (14::int) \<le> 16 \<and> getPasswordStrength (Num 14) = Some ''strong''
   \<and> getPasswordStrength (Num 0) = None"
  using strength_buckets [of 3] strength_buckets [of 7] strength_buckets [of 10]
    strength_buckets [of 14] strength_buckets [of 0]
  by (simp add: labels)

text \<open>
  C6. getPasswordStrength is defined for every integer length: it returns none
  (\<^verbatim>\<open>null\<close>) for 0, for every negative length and for every length above 16, its result
  is always none or one of the four labels, and it is none for no other length.
\<close>

theorem strength_total:
  "getPasswordStrength (Num 0) = None
   \<and> (n < 0 \<or> 16 < n \<longrightarrow> getPasswordStrength (Num n) = None)
   \<and> getPasswordStrength (Num n) \<in>
       {None, Some (TOO_WEAK STRENGTH_LABELS), Some (WEAK STRENGTH_LABELS),
        Some (MEDIUM STRENGTH_LABELS), Some (STRONG STRENGTH_LABELS)}
   \<and> (getPasswordStrength (Num n) = None \<longleftrightarrow> n \<le> 0 \<or> 16 < n)"
proof -
  have zero: "getPasswordStrength (Num 0) = None"
    by (simp add: strength_of_integer)
  have outside: "getPasswordStrength (Num n) = None" if "n < 0 \<or> 16 < n"
    using that by (auto simp: strength_of_integer)
  have five: "getPasswordStrength (Num n) \<in>
       {None, Some (TOO_WEAK STRENGTH_LABELS), Some (WEAK STRENGTH_LABELS),
        Some (MEDIUM STRENGTH_LABELS), Some (STRONG STRENGTH_LABELS)}"
    by (simp add: strength_of_integer)
  have inside: "getPasswordStrength (Num n) \<noteq> None" if "1 \<le> n" and "n \<le> 16"
  proof -
    from that consider "1 \<le> n \<and> n \<le> 4" | "5 \<le> n \<and> n \<le> 8"
      | "9 \<le> n \<and> n \<le> 12" | "13 \<le> n \<and> n \<le> 16"
      by linarith
    then show ?thesis
      by cases (auto simp: strength_of_integer)
  qed
  have none_iff: "getPasswordStrength (Num n) = None \<longleftrightarrow> n \<le> 0 \<or> 16 < n"
  proof
    assume "getPasswordStrength (Num n) = None"
    with inside show "n \<le> 0 \<or> 16 < n" by force
  next
    assume "n \<le> 0 \<or> 16 < n"
    then have "n = 0 \<or> n < 0 \<or> 16 < n" by linarith
    with zero outside show "getPasswordStrength (Num n) = None" by blast
  qed
  from zero outside five none_iff show ?thesis by blast
qed

theorem strength_total_witness:
  "(-3::int) < 0 \<and> getPasswordStrength (Num (-3)) = None
   \<and> (16::int) < 17 \<and> getPasswordStrength (Num 17) = None
   \<and> getPasswordStrength (Num 0) = None"
  using strength_total [of "-3"] strength_total [of 17]
  by simp

section \<open>Properties of buildCharacterPool and of the alphabets\<close>

lemma resetCheckboxes_none: "resetCheckboxes cb = checked_of {}"
  by (simp add: resetCheckboxes_def checked_of_def)

lemma enable_checked_of: "enable c (checked_of S) = checked_of (insert c S)"
  by (cases c) (simp_all add: checked_of_def)

lemma fold_enable_checked_of: "fold enable cs (checked_of S) = checked_of (set cs \<union> S)"
  by (induction cs arbitrary: S) (simp_all add: enable_checked_of)

lemma pool_of_checked: "buildCharacterPool (checked_of S) = spec_pool S"
  by (simp add: buildCharacterPool_def checked_of_def spec_pool_def)

text \<open>
  C4. For every set \<open>S\<close> of enabled character classes, buildCharacterPool returns the
  alphabets of the enabled classes concatenated in the order uppercase, lowercase,
  numbers, symbols. The result depends only on which classes are enabled: checking the
  boxes of a list of classes, in whatever order, on cleared checkboxes gives the pool of
  the set of these classes. With no class enabled the result is the empty string, an
  ordinary result.
\<close>

theorem pool_fixed_order:
  "buildCharacterPool (checked_of S) = spec_pool S
   \<and> buildCharacterPool (enable_all cs (resetCheckboxes cb)) = spec_pool (set cs)
   \<and> buildCharacterPool (checked_of S) =
        (if Uppercase \<in> S then uppercase CHARACTERS else [])
        @ (if Lowercase \<in> S then lowercase CHARACTERS else [])
        @ (if Numbers \<in> S then numbers CHARACTERS else [])
        @ (if Symbols \<in> S then symbols CHARACTERS else [])
   \<and> buildCharacterPool (checked_of {}) = []"
proof -
  have a: "buildCharacterPool (checked_of S) = spec_pool S"
    by (rule pool_of_checked)
  have b: "buildCharacterPool (enable_all cs (resetCheckboxes cb)) = spec_pool (set cs)"
    by (simp add: enable_all_def resetCheckboxes_none fold_enable_checked_of pool_of_checked)
  have c: "buildCharacterPool (checked_of S) =
        (if Uppercase \<in> S then uppercase CHARACTERS else [])
        @ (if Lowercase \<in> S then lowercase CHARACTERS else [])
        @ (if Numbers \<in> S then numbers CHARACTERS else [])
        @ (if Symbols \<in> S then symbols CHARACTERS else [])"
    by (simp add: buildCharacterPool_def checked_of_def)
  have d: "buildCharacterPool (checked_of {}) = []"
    by (simp add: buildCharacterPool_def checked_of_def)
  from a b c d show ?thesis by simp
qed

theorem pool_fixed_order_witness:
  "buildCharacterPool (checked_of {Symbols, Uppercase}) =
     ''ABCDEFGHIJKLMNOPQRSTUVWXYZ!@#$%^&*()_+-=[]{}|;:,.<>?''
   \<and> buildCharacterPool (enable_all [Numbers, Uppercase] (resetCheckboxes (checked_of {Symbols})))
       = ''ABCDEFGHIJKLMNOPQRSTUVWXYZ0123456789''
   \<and> buildCharacterPool (enable_all [Uppercase, Numbers] (resetCheckboxes (checked_of {Symbols})))
       = ''ABCDEFGHIJKLMNOPQRSTUVWXYZ0123456789''"
  using pool_fixed_order [of "{Symbols, Uppercase}" "[Numbers, Uppercase]" "checked_of {Symbols}"]
    pool_fixed_order [of "{Symbols, Uppercase}" "[Uppercase, Numbers]" "checked_of {Symbols}"]
  by (simp add: spec_pool_def CHARACTERS_def)

text \<open>
  C8. The alphabets are fixed and ordered: uppercase is the 26 characters with the codes
  65 to 90 (A to Z), lowercase the 26 characters with the codes 97 to 122 (a to z),
  numbers the 10 characters with the codes 48 to 57 (0 to 9), and symbols a fixed string
  of distinct printable symbols. With only numbers enabled, buildCharacterPool returns
  \<open>0123456789\<close>.
\<close>

theorem alphabets_fixed:
  "map of_char (uppercase CHARACTERS) = [65..<91::nat]
   \<and> length (uppercase CHARACTERS) = 26
   \<and> map of_char (lowercase CHARACTERS) = [97..<123::nat]
   \<and> length (lowercase CHARACTERS) = 26
   \<and> map of_char (numbers CHARACTERS) = [48..<58::nat]
   \<and> length (numbers CHARACTERS) = 10
   \<and> symbols CHARACTERS = ''!@#$%^&*()_+-=[]{}|;:,.<>?''
   \<and> list_all printable_symbol (symbols CHARACTERS)
   \<and> distinct (symbols CHARACTERS)
   \<and> buildCharacterPool \<lparr> uppercase = False, lowercase = False, numbers = True, symbols = False \<rparr>
        = ''0123456789''
   \<and> buildCharacterPool (checked_of {Numbers}) = ''0123456789''"
proof -
  have up: "map of_char (uppercase CHARACTERS) = [65..<91::nat]"
    by (simp add: CHARACTERS_def upt_rec)
  have lo: "map of_char (lowercase CHARACTERS) = [97..<123::nat]"
    by (simp add: CHARACTERS_def upt_rec)
  have nu: "map of_char (numbers CHARACTERS) = [48..<58::nat]"
    by (simp add: CHARACTERS_def upt_rec)
  have lens: "length (uppercase CHARACTERS) = 26" "length (lowercase CHARACTERS) = 26"
    "length (numbers CHARACTERS) = 10"
    by (simp_all add: CHARACTERS_def)
  have sy: "symbols CHARACTERS = ''!@#$%^&*()_+-=[]{}|;:,.<>?''"
    by (simp add: CHARACTERS_def)
  have pr: "list_all printable_symbol (symbols CHARACTERS)"
    by (simp add: CHARACTERS_def printable_symbol_def)
  have di: "distinct (symbols CHARACTERS)"
    by (simp add: CHARACTERS_def)
  have po: "buildCharacterPool \<lparr> uppercase = False, lowercase = False, numbers = True, symbols = False \<rparr>
        = ''0123456789''"
    by (simp add: buildCharacterPool_def CHARACTERS_def)
  have po': "buildCharacterPool (checked_of {Numbers}) = ''0123456789''"
    by (simp add: buildCharacterPool_def checked_of_def CHARACTERS_def)
  from up lo nu lens sy pr di po po' show ?thesis by simp
qed

theorem alphabets_fixed_witness:
  "list_all printable_symbol ''!@#$%^&*()_+-=[]{}|;:,.<>?''
   \<and> map of_char ''0123456789'' = [48..<58::nat]
   \<and> buildCharacterPool (checked_of {Numbers}) = ''0123456789''"
  using alphabets_fixed by (simp add: CHARACTERS_def)

section \<open>When generation fails\<close>

text \<open>
  The specification's two failure conditions are not those of the code: with an empty
  pool and length 0 the generator raises although neither condition holds, with a
  \<open>NaN\<close> length and the pool \<open>a\<close> it raises nothing although the length is non-numeric,
  and with length 16385 and the pool \<open>ab\<close> it raises although neither condition holds.
\<close>

theorem generation_failure_counterexample:
  "generateSecurePassword sample_source (Num 0) [] = Inl (Error ''Character pool cannot be empty'')
   \<and> \<not> spec_generation_fails (Num 0) []
   \<and> generateSecurePassword sample_source NaN ''a'' = Inr []
   \<and> spec_generation_fails NaN ''a''
   \<and> generateSecurePassword sample_source (Num 16385) ''ab'' = Inl QuotaExceededError
   \<and> \<not> spec_generation_fails (Num 16385) ''ab''"
  by (simp add: generate_cases spec_generation_fails_def)

text \<open>
  C5, as the code has it. generateSecurePassword raises in exactly three cases: the pool
  is empty, whatever the length (its own error, "Character pool cannot be empty"); the
  pool is non-empty and the length is negative (the RangeError of the array allocation);
  the pool is non-empty and the length is above 16384 (the platform refuses the request,
  with QuotaExceededError or RangeError). A non-numeric length with a non-empty pool
  raises nothing and gives the empty password. An error is a value handed to the caller:
  generatePassword resets the page exactly for a non-numeric, negative or zero length,
  shows the select-an-option message exactly for a length of at least 1 with an empty
  pool, ends in its \<^verbatim>\<open>catch\<close> block exactly for a length above 16384 with a non-empty
  pool, and shows a password in every other case.
\<close>

theorem generation_fails_iff:
  "(isl (generateSecurePassword rnd len pool)
      \<longleftrightarrow> pool = [] \<or> num_lt len 0 \<or> num_ge len 16385)
   \<and> (generateSecurePassword rnd len pool = Inl e \<longrightarrow>
         (pool = [] \<and> e = Error ''Character pool cannot be empty'')
         \<or> (pool \<noteq> [] \<and> num_lt len 0 \<and> e = RangeError)
         \<or> (pool \<noteq> [] \<and> num_ge len 16385 \<and> (e = QuotaExceededError \<or> e = RangeError)))
   \<and> (pool \<noteq> [] \<longrightarrow> generateSecurePassword rnd NaN pool = Inr [])
   \<and> (generatePassword rnd len checkboxes = ResetUI \<longleftrightarrow> isNaN len \<or> num_le len 0)
   \<and> (generatePassword rnd len checkboxes = SelectOptionError
        \<longleftrightarrow> num_ge len 1 \<and> buildCharacterPool checkboxes = [])
   \<and> ((\<exists>e'. generatePassword rnd len checkboxes = CaughtError e')
        \<longleftrightarrow> num_ge len 16385 \<and> buildCharacterPool checkboxes \<noteq> [])
   \<and> ((\<exists>pw. generatePassword rnd len checkboxes = PasswordShown pw)
        \<longleftrightarrow> num_ge len 1 \<and> num_le len 16384 \<and> buildCharacterPool checkboxes \<noteq> [])"
proof -
  have fails: "isl (generateSecurePassword rnd len pool)
      \<longleftrightarrow> pool = [] \<or> num_lt len 0 \<or> num_ge len 16385"
    by (cases len) (auto simp: generate_cases)
  have kinds: "(pool = [] \<and> e = Error ''Character pool cannot be empty'')
         \<or> (pool \<noteq> [] \<and> num_lt len 0 \<and> e = RangeError)
         \<or> (pool \<noteq> [] \<and> num_ge len 16385 \<and> (e = QuotaExceededError \<or> e = RangeError))"
    if "generateSecurePassword rnd len pool = Inl e"
    using that by (cases len) (auto simp: generate_cases split: if_splits)
  have nan: "generateSecurePassword rnd NaN pool = Inr []" if "pool \<noteq> []"
    using that by (rule generate_NaN)
  have reset: "generatePassword rnd len checkboxes = ResetUI \<longleftrightarrow> isNaN len \<or> num_le len 0"
    by (cases len) (auto simp: generatePassword_def generate_cases CONFIG_def Let_def)
  have prompt: "generatePassword rnd len checkboxes = SelectOptionError
        \<longleftrightarrow> num_ge len 1 \<and> buildCharacterPool checkboxes = []"
    by (cases len) (auto simp: generatePassword_def generate_cases CONFIG_def Let_def)
  have caught: "(\<exists>e'. generatePassword rnd len checkboxes = CaughtError e')
        \<longleftrightarrow> num_ge len 16385 \<and> buildCharacterPool checkboxes \<noteq> []"
    by (cases len) (auto simp: generatePassword_def generate_cases CONFIG_def Let_def)
  have shown: "(\<exists>pw. generatePassword rnd len checkboxes = PasswordShown pw)
        \<longleftrightarrow> num_ge len 1 \<and> num_le len 16384 \<and> buildCharacterPool checkboxes \<noteq> []"
    by (cases len) (auto simp: generatePassword_def generate_cases CONFIG_def Let_def)
  from fails kinds nan reset prompt caught shown show ?thesis by blast
qed

theorem generation_fails_iff_witness:
  "generateSecurePassword sample_source (Num (-2)) ''ab'' = Inl RangeError
   \<and> ''ab'' \<noteq> [] \<and> num_lt (Num (-2)) 0
   \<and> generateSecurePassword sample_source (Num 16385) ''ab'' = Inl QuotaExceededError
   \<and> num_ge (Num 16385) 16385
   \<and> generateSecurePassword sample_source NaN ''ab'' = Inr []
   \<and> generatePassword sample_source (Num 4) (checked_of {}) = SelectOptionError
   \<and> generatePassword sample_source (Num (-2)) (checked_of {Numbers}) = ResetUI"
proof -
  have run: "generateSecurePassword sample_source (Num (-2)) ''ab'' = Inl RangeError"
    by (simp add: generate_cases)
  have refused: "generateSecurePassword sample_source (Num 16385) ''ab'' = Inl QuotaExceededError"
    by (simp add: generate_cases)
  have empty: "buildCharacterPool (checked_of {}) = []"
    by (simp add: buildCharacterPool_def checked_of_def)
  show ?thesis
    using generation_fails_iff [of sample_source "Num (-2)" "''ab''" RangeError "checked_of {Numbers}"]
      generation_fails_iff [of sample_source "Num 4" "''ab''" RangeError "checked_of {}"]
      generation_fails_iff [of sample_source "Num 16385" "''ab''" QuotaExceededError "checked_of {}"]
      run refused empty
    by simp
qed

end
